theory Spec2Isabelle
  imports Main "HOL-Library.Word"
begin

unbundle bit_operations_syntax

section \<open>The shared-buffer polling channel of PGlite\<close>

text \<open>
  A shallow embedding of \<^verbatim>\<open>spike-memory-polling/pglite-comm-polling.h\<close> and of
  \<^verbatim>\<open>spike-memory-polling/test-wasm.c\<close>. Both files are built with Emscripten for
  wasm32, an ILP32 target: \<^verbatim>\<open>int\<close>, \<^verbatim>\<open>long\<close>, \<^verbatim>\<open>size_t\<close> and \<^verbatim>\<open>ssize_t\<close> are
  32 bits wide. Unsigned arithmetic wraps modulo \<open>2 ^ 32\<close>; a signed value is kept
  as the same 32 bits and read in two's complement with \<open>sint\<close>.
\<close>

subsection \<open>Machine types\<close>

type_synonym uint8_t = "8 word"
type_synonym uint32_t = "32 word"
type_synonym int32_t = "32 word"
type_synonym size_t = "32 word"
type_synonym ssize_t = "32 word"

text \<open>\<^verbatim>\<open>#define PGLITE_BUFFER_SIZE (64 * 1024)\<close>, and \<^verbatim>\<open>BUFFER_SIZE\<close> in the test module.\<close>

definition PGLITE_BUFFER_SIZE :: "32 word" where
  "PGLITE_BUFFER_SIZE = 64 * 1024"

definition BUFFER_SIZE :: "32 word" where
  "BUFFER_SIZE = 64 * 1024"

text \<open>The enum \<^verbatim>\<open>BufferStatus\<close>; the struct stores it in a \<^verbatim>\<open>uint32_t\<close>.\<close>

definition BUFFER_EMPTY :: uint32_t where "BUFFER_EMPTY = 0"

definition BUFFER_READY :: uint32_t where "BUFFER_READY = 1"

definition BUFFER_PROCESSING :: uint32_t where "BUFFER_PROCESSING = 2"

text \<open>The enum \<^verbatim>\<open>OperationType\<close>, stored in a \<^verbatim>\<open>uint32_t\<close> as well.\<close>

definition OP_NONE :: uint32_t where "OP_NONE = 0"

definition OP_READ_REQUEST :: uint32_t where "OP_READ_REQUEST = 1"

definition OP_WRITE_READY :: uint32_t where "OP_WRITE_READY = 2"

definition OP_COMPLETED :: uint32_t where "OP_COMPLETED = 3"

definition OP_ERROR :: uint32_t where "OP_ERROR = 4"

subsection \<open>The shared structures\<close>

text \<open>
  \<^verbatim>\<open>PGliteBuffer\<close> (\<^verbatim>\<open>Buffer\<close> in the test module). The field \<^verbatim>\<open>length\<close> is named
  \<open>length_fld\<close> here, and the array \<^verbatim>\<open>data\<close> is the list of its bytes: a buffer of
  the C type holds exactly \<open>BUFFER_SIZE\<close> of them (\<open>buffer_wf\<close>).
\<close>

record buffer =
  status :: uint32_t
  length_fld :: uint32_t
  data :: "uint8_t list"

text \<open>\<^verbatim>\<open>PGliteControl\<close> (\<^verbatim>\<open>Control\<close> in the test module).\<close>

record control =
  operation :: uint32_t
  error_code :: int32_t
  read_offset :: uint32_t
  total_read :: uint32_t
  total_written :: uint32_t

text \<open>
  The three globals: \<^verbatim>\<open>g_input_buffer\<close>, \<^verbatim>\<open>g_output_buffer\<close> and \<^verbatim>\<open>g_control\<close> of
  the header, \<^verbatim>\<open>g_input\<close>, \<^verbatim>\<open>g_output\<close> and \<^verbatim>\<open>g_control\<close> of the test module.
\<close>

record channel =
  g_input :: buffer
  g_output :: buffer
  g_control :: control

definition buffer_wf :: "buffer \<Rightarrow> bool" where
  "buffer_wf b = (length (data b) = unat BUFFER_SIZE)"

definition channel_wf :: "channel \<Rightarrow> bool" where
  "channel_wf s = (buffer_wf (g_input s) \<and> buffer_wf (g_output s))"

text \<open>Static storage is zero-initialised before \<^verbatim>\<open>main\<close> runs.\<close>

definition zero_buffer :: buffer where
  "zero_buffer = \<lparr>status = 0, length_fld = 0, data = replicate (unat BUFFER_SIZE) 0\<rparr>"

definition zero_channel :: channel where
  "zero_channel =
     \<lparr>g_input = zero_buffer, g_output = zero_buffer,
      g_control = \<lparr>operation = 0, error_code = 0, read_offset = 0,
                   total_read = 0, total_written = 0\<rparr>\<rparr>"

subsection \<open>Undefined behaviour as a value\<close>

text \<open>
  The only operation of the channel that C leaves undefined is a \<^verbatim>\<open>memcpy\<close> that
  leaves one of its arrays. The model returns \<open>Inl OutOfBounds\<close> there instead of a
  state.
\<close>

datatype fault = OutOfBounds

text \<open>\<^verbatim>\<open>memcpy(buf, arr + off, n)\<close>: the \<open>n\<close> bytes read from the array.\<close>

definition memcpy_from :: "uint8_t list \<Rightarrow> nat \<Rightarrow> nat \<Rightarrow> fault + uint8_t list" where
  "memcpy_from arr off n =
     (if off + n \<le> length arr then Inr (take n (drop off arr)) else Inl OutOfBounds)"

text \<open>\<^verbatim>\<open>memcpy(arr + off, src, n)\<close>: the array after the copy.\<close>

definition memcpy_to :: "uint8_t list \<Rightarrow> nat \<Rightarrow> uint8_t list \<Rightarrow> nat \<Rightarrow> fault + uint8_t list" where
  "memcpy_to arr off src n =
     (if off + n \<le> length arr \<and> n \<le> length src
      then Inr (take off arr @ take n src @ drop (off + n) arr)
      else Inl OutOfBounds)"

subsection \<open>Exported functions of the header\<close>

definition pglite_get_buffer_size :: uint32_t where
  "pglite_get_buffer_size = PGLITE_BUFFER_SIZE"

definition pglite_signal_input_ready :: "uint32_t \<Rightarrow> channel \<Rightarrow> channel" where
  "pglite_signal_input_ready len s =
     s\<lparr>g_input := (g_input s)\<lparr>length_fld := len, status := BUFFER_READY\<rparr>,
       g_control := (g_control s)\<lparr>read_offset := 0\<rparr>\<rparr>"

definition pglite_reset_buffers :: "channel \<Rightarrow> channel" where
  "pglite_reset_buffers s =
     s\<lparr>g_input := (g_input s)\<lparr>status := BUFFER_EMPTY, length_fld := 0\<rparr>,
       g_output := (g_output s)\<lparr>status := BUFFER_EMPTY, length_fld := 0\<rparr>,
       g_control := (g_control s)\<lparr>operation := OP_NONE, error_code := 0, read_offset := 0,
                                  total_read := 0, total_written := 0\<rparr>\<rparr>"

definition pglite_has_output :: "channel \<Rightarrow> int32_t" where
  "pglite_has_output s = (if status (g_output s) = BUFFER_READY then 1 else 0)"

definition pglite_get_output_length :: "channel \<Rightarrow> uint32_t" where
  "pglite_get_output_length s = length_fld (g_output s)"

definition pglite_ack_output :: "channel \<Rightarrow> channel" where
  "pglite_ack_output s =
     s\<lparr>g_output := (g_output s)\<lparr>status := BUFFER_EMPTY, length_fld := 0\<rparr>\<rparr>"

subsection \<open>The stream adapter of the header\<close>

text \<open>
  \<^verbatim>\<open>pglite_polling_read(buf, max_len)\<close> returns the C return value, the bytes it
  copied to \<^verbatim>\<open>buf\<close>, and the channel afterwards.
\<close>

definition pglite_polling_read ::
  "size_t \<Rightarrow> channel \<Rightarrow> fault + (ssize_t \<times> uint8_t list \<times> channel)" where
  "pglite_polling_read max_len s =
     (if status (g_input s) \<noteq> BUFFER_READY then Inr (0, [], s)
      else
        let available = length_fld (g_input s) - read_offset (g_control s) in
        if available = 0
        then Inr (0, [], s\<lparr>g_input := (g_input s)\<lparr>status := BUFFER_EMPTY\<rparr>\<rparr>)
        else
          let to_read = (if max_len < available then max_len else available) in
          case memcpy_from (data (g_input s)) (unat (read_offset (g_control s))) (unat to_read) of
            Inl f \<Rightarrow> Inl f
          | Inr bytes \<Rightarrow>
              let c = (g_control s)\<lparr>read_offset := read_offset (g_control s) + to_read,
                                    total_read := total_read (g_control s) + to_read\<rparr>;
                  i = (if length_fld (g_input s) \<le> read_offset c
                       then (g_input s)\<lparr>status := BUFFER_EMPTY\<rparr>
                       else g_input s)
              in Inr (to_read, bytes, s\<lparr>g_input := i, g_control := c\<rparr>))"

text \<open>
  \<^verbatim>\<open>pglite_polling_write(buf, len)\<close>: \<open>buf\<close> is the caller's array, \<open>len\<close> the number
  of bytes to take from it. The sum in the test is the 32-bit sum.
\<close>

definition pglite_polling_write ::
  "uint8_t list \<Rightarrow> size_t \<Rightarrow> channel \<Rightarrow> fault + (ssize_t \<times> channel)" where
  "pglite_polling_write buf len s =
     (if PGLITE_BUFFER_SIZE < length_fld (g_output s) + len
      then Inr (- 1, s\<lparr>g_output := (g_output s)\<lparr>status := BUFFER_READY\<rparr>,
                        g_control := (g_control s)\<lparr>operation := OP_WRITE_READY\<rparr>\<rparr>)
      else
        case memcpy_to (data (g_output s)) (unat (length_fld (g_output s))) buf (unat len) of
          Inl f \<Rightarrow> Inl f
        | Inr d \<Rightarrow>
            Inr (len, s\<lparr>g_output := (g_output s)\<lparr>data := d,
                                                  length_fld := length_fld (g_output s) + len\<rparr>,
                         g_control := (g_control s)\<lparr>total_written :=
                                                     total_written (g_control s) + len\<rparr>\<rparr>))"

definition pglite_polling_flush :: "channel \<Rightarrow> channel" where
  "pglite_polling_flush s =
     (if 0 < length_fld (g_output s)
      then s\<lparr>g_output := (g_output s)\<lparr>status := BUFFER_READY\<rparr>,
             g_control := (g_control s)\<lparr>operation := OP_WRITE_READY\<rparr>\<rparr>
      else s)"

subsection \<open>The test module: the same channel, under its own names\<close>

definition get_buffer_size :: uint32_t where
  "get_buffer_size = BUFFER_SIZE"

definition reset_buffers :: "channel \<Rightarrow> channel" where
  "reset_buffers s =
     s\<lparr>g_input := (g_input s)\<lparr>status := BUFFER_EMPTY, length_fld := 0\<rparr>,
       g_output := (g_output s)\<lparr>status := BUFFER_EMPTY, length_fld := 0\<rparr>,
       g_control := (g_control s)\<lparr>operation := OP_NONE, error_code := 0, read_offset := 0,
                                  total_read := 0, total_written := 0\<rparr>\<rparr>"

definition signal_input_ready :: "uint32_t \<Rightarrow> channel \<Rightarrow> channel" where
  "signal_input_ready len s =
     s\<lparr>g_input := (g_input s)\<lparr>length_fld := len, status := BUFFER_READY\<rparr>,
       g_control := (g_control s)\<lparr>read_offset := 0\<rparr>\<rparr>"

definition has_output :: "channel \<Rightarrow> int32_t" where
  "has_output s = (if status (g_output s) = BUFFER_READY then 1 else 0)"

definition get_output_length :: "channel \<Rightarrow> uint32_t" where
  "get_output_length s = length_fld (g_output s)"

definition ack_output :: "channel \<Rightarrow> channel" where
  "ack_output s =
     s\<lparr>g_output := (g_output s)\<lparr>status := BUFFER_EMPTY, length_fld := 0\<rparr>\<rparr>"

definition internal_read ::
  "size_t \<Rightarrow> channel \<Rightarrow> fault + (ssize_t \<times> uint8_t list \<times> channel)" where
  "internal_read max_len s =
     (if status (g_input s) \<noteq> BUFFER_READY then Inr (0, [], s)
      else
        let available = length_fld (g_input s) - read_offset (g_control s) in
        if available = 0
        then Inr (0, [], s\<lparr>g_input := (g_input s)\<lparr>status := BUFFER_EMPTY\<rparr>\<rparr>)
        else
          let to_read = (if max_len < available then max_len else available) in
          case memcpy_from (data (g_input s)) (unat (read_offset (g_control s))) (unat to_read) of
            Inl f \<Rightarrow> Inl f
          | Inr bytes \<Rightarrow>
              let c = (g_control s)\<lparr>read_offset := read_offset (g_control s) + to_read,
                                    total_read := total_read (g_control s) + to_read\<rparr>;
                  i = (if length_fld (g_input s) \<le> read_offset c
                       then (g_input s)\<lparr>status := BUFFER_EMPTY\<rparr>
                       else g_input s)
              in Inr (to_read, bytes, s\<lparr>g_input := i, g_control := c\<rparr>))"

definition internal_write ::
  "uint8_t list \<Rightarrow> size_t \<Rightarrow> channel \<Rightarrow> fault + (ssize_t \<times> channel)" where
  "internal_write buf len s =
     (if BUFFER_SIZE < length_fld (g_output s) + len
      then Inr (- 1, s\<lparr>g_output := (g_output s)\<lparr>status := BUFFER_READY\<rparr>,
                        g_control := (g_control s)\<lparr>operation := OP_WRITE_READY\<rparr>\<rparr>)
      else
        case memcpy_to (data (g_output s)) (unat (length_fld (g_output s))) buf (unat len) of
          Inl f \<Rightarrow> Inl f
        | Inr d \<Rightarrow>
            Inr (len, s\<lparr>g_output := (g_output s)\<lparr>data := d,
                                                  length_fld := length_fld (g_output s) + len\<rparr>,
                         g_control := (g_control s)\<lparr>total_written :=
                                                     total_written (g_control s) + len\<rparr>\<rparr>))"

definition internal_flush :: "channel \<Rightarrow> channel" where
  "internal_flush s =
     (if 0 < length_fld (g_output s)
      then s\<lparr>g_output := (g_output s)\<lparr>status := BUFFER_READY\<rparr>,
             g_control := (g_control s)\<lparr>operation := OP_WRITE_READY\<rparr>\<rparr>
      else s)"

subsection \<open>The echo emitter\<close>

text \<open>The body of the upper-casing loop, on one byte (\<^verbatim>\<open>'a'\<close> is 97, \<^verbatim>\<open>'A'\<close> is 65).\<close>

definition upcase :: "uint8_t \<Rightarrow> uint8_t" where
  "upcase c = (if 0x61 \<le> c \<and> c \<le> 0x7A then c - 0x61 + 0x41 else c)"

text \<open>
  The five header bytes: the tag, then \<^verbatim>\<open>(len >> 24) & 0xFF\<close>, \<^verbatim>\<open>(len >> 16) & 0xFF\<close>,
  \<^verbatim>\<open>(len >> 8) & 0xFF\<close> and \<^verbatim>\<open>len & 0xFF\<close>, each stored in a \<^verbatim>\<open>uint8_t\<close>.
\<close>

definition header_bytes :: "uint8_t \<Rightarrow> uint32_t \<Rightarrow> uint8_t list" where
  "header_bytes tag len =
     [tag,
      ucast (drop_bit 24 len AND 0xFF),
      ucast (drop_bit 16 len AND 0xFF),
      ucast (drop_bit 8 len AND 0xFF),
      ucast (len AND 0xFF)]"

text \<open>
  \<^verbatim>\<open>process_message\<close>. \<open>local_buffer\<close> stands for the first \<open>bytes_read\<close> bytes of
  the 1024-byte local array, the only ones the function uses; the loop upper-cases
  each of them once. The results of both writes are dropped, as in the source.
\<close>

definition process_message :: "channel \<Rightarrow> fault + (int32_t \<times> channel)" where
  "process_message s =
     (case internal_read (1024 - 1) s of
        Inl f \<Rightarrow> Inl f
      | Inr (bytes_read, local_buffer, s1) \<Rightarrow>
          if sint bytes_read \<le> 0
          then Inr (- 1, s1\<lparr>g_control := (g_control s1)\<lparr>error_code := - 1,
                                                        operation := OP_ERROR\<rparr>\<rparr>)
          else
            let upper = map upcase local_buffer;
                len = bytes_read + 4;
                header = header_bytes 0x52 len
            in (case internal_write header 5 s1 of
                  Inl f \<Rightarrow> Inl f
                | Inr (r1, s2) \<Rightarrow>
                    (case internal_write upper bytes_read s2 of
                       Inl f \<Rightarrow> Inl f
                     | Inr (r2, s3) \<Rightarrow>
                         (let s4 = internal_flush s3
                          in Inr (0, s4\<lparr>g_control :=
                                          (g_control s4)\<lparr>operation := OP_COMPLETED\<rparr>\<rparr>)))))"

subsection \<open>The multi-row emitter\<close>

text \<open>
  \<^verbatim>\<open>snprintf(row_data, sizeof(row_data), "Row %d of %d\n", i + 1, num_rows)\<close>:
  \<open>dec_digits\<close> prints a natural number in decimal, \<open>fmt_int\<close> is \<^verbatim>\<open>%d\<close>, and
  \<open>snprintf_row\<close> returns the initialised part of \<^verbatim>\<open>row_data\<close> (at most
  \<open>n - 1\<close> characters and the terminating zero) with the C return value, the
  length of the whole text.
\<close>

fun dec_digits :: "nat \<Rightarrow> uint8_t list" where
  "dec_digits n =
     (if n < 10 then [of_nat (48 + n)]
      else dec_digits (n div 10) @ [of_nat (48 + n mod 10)])"

declare dec_digits.simps [simp del]

definition fmt_int :: "int32_t \<Rightarrow> uint8_t list" where
  "fmt_int v =
     (if sint v < 0 then 0x2D # dec_digits (nat (- sint v)) else dec_digits (nat (sint v)))"

definition row_text :: "int32_t \<Rightarrow> int32_t \<Rightarrow> uint8_t list" where
  "row_text a b =
     [0x52, 0x6F, 0x77, 0x20] @ fmt_int a @ [0x20, 0x6F, 0x66, 0x20] @ fmt_int b @ [0x0A]"

definition snprintf_row :: "nat \<Rightarrow> int32_t \<Rightarrow> int32_t \<Rightarrow> uint8_t list \<times> int32_t" where
  "snprintf_row n a b =
     (let text = row_text a b in (take (n - 1) text @ [0], of_nat (length text)))"

text \<open>The loop counter cannot overflow while it is below \<open>num_rows\<close>.\<close>

lemma sint_succ:
  fixes i n :: "32 word"
  assumes "sint i < sint n"
  shows "sint (i + 1) = sint i + 1"
proof -
  have "sint n < 2 ^ 31" using sint_lt [of n] by simp
  moreover have "- (2 ^ 31) \<le> sint i" using sint_ge [of i] by simp
  ultimately have "signed_take_bit 31 (sint i + 1) = sint i + 1"
    using assms by (intro signed_take_bit_int_eq_self) simp_all
  then show ?thesis by (simp add: sint_word_ariths)
qed

text \<open>
  The \<^verbatim>\<open>for\<close> loop of \<^verbatim>\<open>process_multi_row\<close>, from counter \<open>i\<close> on, with the
  flush and the return that follow it.
\<close>

function process_multi_row_loop ::
  "int32_t \<Rightarrow> int32_t \<Rightarrow> channel \<Rightarrow> fault + (int32_t \<times> channel)" where
  "process_multi_row_loop i num_rows s =
     (if sint i < sint num_rows
      then
        (case snprintf_row 64 (i + 1) num_rows of
           (row_data, len) \<Rightarrow>
             (let msg_len = len + 4;
                  header = header_bytes 0x44 msg_len
              in (case internal_write header 5 s of
                    Inl f \<Rightarrow> Inl f
                  | Inr (r1, s1) \<Rightarrow>
                      if sint r1 < 0
                      then Inr (- 1, s1\<lparr>g_control := (g_control s1)\<lparr>error_code := - 2,
                                                                    operation := OP_ERROR\<rparr>\<rparr>)
                      else
                        (case internal_write row_data len s1 of
                           Inl f \<Rightarrow> Inl f
                         | Inr (r2, s2) \<Rightarrow>
                             if sint r2 < 0
                             then Inr (- 1, s2\<lparr>g_control := (g_control s2)\<lparr>error_code := - 3,
                                                                    operation := OP_ERROR\<rparr>\<rparr>)
                             else process_multi_row_loop (i + 1) num_rows s2))))
      else
        (let s1 = internal_flush s
         in Inr (0, s1\<lparr>g_control := (g_control s1)\<lparr>operation := OP_COMPLETED\<rparr>\<rparr>)))"
  by pat_completeness auto
termination
  by (relation "measure (\<lambda>(i, num_rows, s). nat (sint num_rows - sint i))")
    (simp_all add: sint_succ)

definition process_multi_row :: "int32_t \<Rightarrow> channel \<Rightarrow> fault + (int32_t \<times> channel)" where
  "process_multi_row num_rows s = process_multi_row_loop 0 num_rows s"

declare process_multi_row_loop.simps [simp del]

subsection \<open>The host side\<close>

text \<open>
  Side B copies the payload into the \<^verbatim>\<open>data\<close> region of the input buffer, from
  its first byte on, before it signals the input ready.
\<close>

definition host_fill_input :: "uint8_t list \<Rightarrow> channel \<Rightarrow> channel" where
  "host_fill_input payload s =
     s\<lparr>g_input := (g_input s)\<lparr>data := payload @ drop (length payload) (data (g_input s))\<rparr>\<rparr>"

text \<open>A run of reads, one per requested maximum: the return values, all bytes, the end state.\<close>

fun read_seq ::
  "size_t list \<Rightarrow> channel \<Rightarrow> fault + (ssize_t list \<times> uint8_t list \<times> channel)" where
  "read_seq [] s = Inr ([], [], s)"
| "read_seq (m # ms) s =
     (case pglite_polling_read m s of
        Inl f \<Rightarrow> Inl f
      | Inr (n, bytes, s1) \<Rightarrow>
          (case read_seq ms s1 of
             Inl f \<Rightarrow> Inl f
           | Inr (ns, rest, s2) \<Rightarrow> Inr (n # ns, bytes @ rest, s2)))"

text \<open>
  Side B runs one echo cycle per payload (fill the input, signal it, call
  \<^verbatim>\<open>process_message\<close>) and never acknowledges the output in between.
\<close>

fun echo_cycles :: "uint8_t list list \<Rightarrow> channel \<Rightarrow> fault + channel" where
  "echo_cycles [] s = Inr s"
| "echo_cycles (p # ps) s =
     (case process_message (signal_input_ready (of_nat (length p)) (host_fill_input p s)) of
        Inl f \<Rightarrow> Inl f
      | Inr (r, s') \<Rightarrow> echo_cycles ps s')"

subsection \<open>Predicates and sample data of the properties\<close>

text \<open>The cursor stays inside the signalled input: \<^verbatim>\<open>read_offset <= input.length\<close>.\<close>

definition offset_inv :: "channel \<Rightarrow> bool" where
  "offset_inv s = (read_offset (g_control s) \<le> length_fld (g_input s))"

text \<open>
  The input buffer holds \<open>payload\<close>, signalled with its length, and \<open>k\<close> of its bytes
  have been read: the status is still Ready unless everything has been read.
\<close>

definition draining :: "uint8_t list \<Rightarrow> nat \<Rightarrow> channel \<Rightarrow> bool" where
  "draining payload k s =
     (length payload \<le> unat BUFFER_SIZE \<and>
      length payload \<le> length (data (g_input s)) \<and>
      take (length payload) (data (g_input s)) = payload \<and>
      length_fld (g_input s) = of_nat (length payload) \<and>
      read_offset (g_control s) = of_nat k \<and>
      k \<le> length payload \<and>
      (status (g_input s) = BUFFER_READY \<or> k = length payload))"

text \<open>Side B copies \<^verbatim>\<open>get_output_length()\<close> bytes out of the output buffer.\<close>

definition host_read_output :: "channel \<Rightarrow> uint8_t list" where
  "host_read_output s = take (unat (get_output_length s)) (data (g_output s))"

text \<open>The ASCII bytes of \<^verbatim>\<open>hello\<close> and of \<^verbatim>\<open>HELLO\<close>.\<close>

definition hello_bytes :: "uint8_t list" where
  "hello_bytes = [0x68, 0x65, 0x6C, 0x6C, 0x6F]"

definition HELLO_bytes :: "uint8_t list" where
  "HELLO_bytes = [0x48, 0x45, 0x4C, 0x4C, 0x4F]"

section \<open>Basic facts\<close>

lemma BUFFER_SIZE_val: "BUFFER_SIZE = 65536" "PGLITE_BUFFER_SIZE = 65536"
  by (simp_all add: BUFFER_SIZE_def PGLITE_BUFFER_SIZE_def)

lemma unat_BUFFER_SIZE: "unat BUFFER_SIZE = 65536"
  by (simp add: BUFFER_SIZE_def)

lemmas status_defs = BUFFER_EMPTY_def BUFFER_READY_def BUFFER_PROCESSING_def
lemmas op_defs = OP_NONE_def OP_READ_REQUEST_def OP_WRITE_READY_def OP_COMPLETED_def OP_ERROR_def

text \<open>The test module repeats the header's functions word for word.\<close>

lemma reset_buffers_eq: "reset_buffers = pglite_reset_buffers"
  by (rule ext) (simp add: reset_buffers_def pglite_reset_buffers_def)

lemma signal_input_ready_eq: "signal_input_ready = pglite_signal_input_ready"
  by (rule ext, rule ext) (simp add: signal_input_ready_def pglite_signal_input_ready_def)

lemma has_output_eq: "has_output = pglite_has_output"
  by (rule ext) (simp add: has_output_def pglite_has_output_def)

lemma get_output_length_eq: "get_output_length = pglite_get_output_length"
  by (rule ext) (simp add: get_output_length_def pglite_get_output_length_def)

lemma ack_output_eq: "ack_output = pglite_ack_output"
  by (rule ext) (simp add: ack_output_def pglite_ack_output_def)

lemma internal_read_eq: "internal_read = pglite_polling_read"
  by (rule ext, rule ext) (simp add: internal_read_def pglite_polling_read_def)

lemma internal_write_eq: "internal_write = pglite_polling_write"
  by (rule ext, rule ext, rule ext)
    (simp add: internal_write_def pglite_polling_write_def BUFFER_SIZE_val)

lemma internal_flush_eq: "internal_flush = pglite_polling_flush"
  by (rule ext) (simp add: internal_flush_def pglite_polling_flush_def)

lemma channel_wf_zero: "channel_wf zero_channel"
  by (simp add: channel_wf_def buffer_wf_def zero_channel_def zero_buffer_def)

subsection \<open>Reading\<close>

lemma read_not_ready:
  "status (g_input s) \<noteq> BUFFER_READY \<Longrightarrow> pglite_polling_read max_len s = Inr (0, [], s)"
  by (simp add: pglite_polling_read_def)

lemma read_frame:
  assumes "pglite_polling_read max_len s = Inr (n, bytes, s')"
  shows "g_output s' = g_output s" and "data (g_input s') = data (g_input s)"
    and "error_code (g_control s') = error_code (g_control s)"
  using assms
  by (auto simp: pglite_polling_read_def Let_def split: if_splits sum.splits)

lemma read_ready_cases:
  fixes s :: channel and max_len :: size_t
  defines "off \<equiv> read_offset (g_control s)"
  defines "len \<equiv> length_fld (g_input s)"
  defines "n \<equiv> min (unat max_len) (unat len - unat off)"
  assumes st: "status (g_input s) = BUFFER_READY"
    and inv: "off \<le> len"
  shows "pglite_polling_read max_len s =
           (if off = len \<or> unat off + n \<le> length (data (g_input s))
            then Inr (of_nat n, take n (drop (unat off) (data (g_input s))),
                s\<lparr>g_input := (g_input s)\<lparr>status := (if unat len \<le> unat off + n
                                                      then BUFFER_EMPTY else BUFFER_READY)\<rparr>,
                  g_control := (g_control s)\<lparr>read_offset := off + of_nat n,
                                              total_read := total_read (g_control s) + of_nat n\<rparr>\<rparr>)
            else Inl OutOfBounds)"
proof -
  have le: "unat off \<le> unat len"
    using inv by (simp add: word_le_nat_alt)
  have av: "unat (len - off) = unat len - unat off"
    using inv by (simp add: unat_sub)
  show ?thesis
  proof (cases "len - off = 0")
    case True
    then have "len = off" by simp
    then show ?thesis
      using st True by (simp add: pglite_polling_read_def n_def off_def len_def)
  next
    case False
    then have ne: "off \<noteq> len" by auto
    define to_read where "to_read = (if max_len < len - off then max_len else len - off)"
    have tr: "unat to_read = n"
      by (simp add: to_read_def n_def av word_less_nat_alt min_def)
    then have tr': "to_read = of_nat n"
      unfolding tr [symmetric] by simp
    have nle: "unat off + n \<le> unat len"
      using le by (simp add: n_def)
    have sum: "unat (off + to_read) = unat off + n"
    proof -
      have "unat len < 2 ^ 32" using unsigned_less [of len] by simp
      then have "unat off + unat to_read < 2 ^ LENGTH(32)" using nle tr by simp
      then show ?thesis using tr by (simp add: unat_add_lem [THEN iffD1])
    qed
    have stat: "(len \<le> off + to_read) = (unat len \<le> unat off + n)"
      by (simp add: word_le_nat_alt sum)
    show ?thesis
      using st False ne stat
      by (simp add: pglite_polling_read_def Let_def memcpy_from_def tr
          flip: off_def len_def to_read_def tr')
  qed
qed

lemma read_ready:
  fixes s :: channel and max_len :: size_t
  defines "off \<equiv> read_offset (g_control s)"
  defines "len \<equiv> length_fld (g_input s)"
  defines "n \<equiv> min (unat max_len) (unat len - unat off)"
  assumes st: "status (g_input s) = BUFFER_READY"
    and inv: "off \<le> len"
    and cap: "unat len \<le> length (data (g_input s))"
  shows "pglite_polling_read max_len s =
           Inr (of_nat n, take n (drop (unat off) (data (g_input s))),
                s\<lparr>g_input := (g_input s)\<lparr>status := (if unat len \<le> unat off + n
                                                      then BUFFER_EMPTY else BUFFER_READY)\<rparr>,
                  g_control := (g_control s)\<lparr>read_offset := off + of_nat n,
                                              total_read := total_read (g_control s) + of_nat n\<rparr>\<rparr>)"
proof -
  have "unat off \<le> unat len"
    using inv by (simp add: word_le_nat_alt)
  then have "unat off + n \<le> length (data (g_input s))"
    using cap by (simp add: n_def)
  then show ?thesis
    using read_ready_cases [OF st inv [unfolded off_def len_def], of max_len]
    by (simp add: off_def len_def n_def)
qed

lemma unat_of_nat_small: "k \<le> 65536 \<Longrightarrow> unat (of_nat k :: 32 word) = k"
  by (simp add: unat_of_nat)

lemma sint_of_nat_small:
  assumes "k \<le> 65536"
  shows "sint (of_nat k :: 32 word) = int k"
proof -
  have "signed_take_bit 31 (int k) = int k"
    using assms by (intro signed_take_bit_int_eq_self) simp_all
  then show ?thesis by (simp add: signed_of_nat)
qed

lemma min_split_sum:
  fixes a b k L :: nat
  shows "min (a + b) (L - k) = min a (L - k) + min b (L - (k + min a (L - k)))"
  by arith

lemma take_drop_prefix:
  "k + n \<le> L \<Longrightarrow> take n (drop k (take L xs)) = take n (drop k xs)"
  by (simp add: drop_take min_def)

lemma read_draining:
  fixes max_len :: size_t
  assumes d: "draining payload k s"
  defines "n \<equiv> min (unat max_len) (length payload - k)"
  shows "\<exists>s'. pglite_polling_read max_len s = Inr (of_nat n, take n (drop k payload), s') \<and>
              draining payload (k + n) s'"
proof -
  let ?L = "length payload"
  have L: "?L \<le> 65536" and k: "k \<le> ?L" and fit: "?L \<le> length (data (g_input s))"
    and pre: "take ?L (data (g_input s)) = payload"
    and len: "length_fld (g_input s) = of_nat ?L"
    and off: "read_offset (g_control s) = of_nat k"
    and st: "status (g_input s) = BUFFER_READY \<or> k = ?L"
    using d by (simp_all add: draining_def unat_BUFFER_SIZE)
  have ulen: "unat (length_fld (g_input s)) = ?L"
    using L by (simp add: len unat_of_nat_small)
  have uoff: "unat (read_offset (g_control s)) = k"
    using L k by (simp add: off unat_of_nat_small)
  show ?thesis
  proof (cases "status (g_input s) = BUFFER_READY")
    case False
    with st have "k = ?L" by simp
    then have "n = 0" by (simp add: n_def)
    with False d show ?thesis by (simp add: read_not_ready)
  next
    case True
    have inv: "read_offset (g_control s) \<le> length_fld (g_input s)"
      using k by (simp add: word_le_nat_alt ulen uoff)
    have cap: "unat (length_fld (g_input s)) \<le> length (data (g_input s))"
      using fit by (simp add: ulen)
    have kn: "k + n \<le> ?L" using k by (simp add: n_def)
    have bytes: "take n (drop k (data (g_input s))) = take n (drop k payload)"
      using take_drop_prefix [OF kn, of "data (g_input s)"] by (simp add: pre)
    define s' where "s' =
      s\<lparr>g_input := (g_input s)\<lparr>status := (if ?L \<le> k + n then BUFFER_EMPTY else BUFFER_READY)\<rparr>,
        g_control := (g_control s)\<lparr>read_offset := read_offset (g_control s) + of_nat n,
                                    total_read := total_read (g_control s) + of_nat n\<rparr>\<rparr>"
    have rd: "pglite_polling_read max_len s = Inr (of_nat n, take n (drop k payload), s')"
      using read_ready [OF True inv cap, of max_len]
      unfolding ulen uoff n_def [symmetric] bytes s'_def .
    have "draining payload (k + n) s'"
      using L fit pre kn by (simp add: draining_def s'_def unat_BUFFER_SIZE len off)
    with rd show ?thesis by blast
  qed
qed

lemma read_drained:
  assumes "draining payload (length payload) s"
  shows "\<exists>s'. pglite_polling_read max_len s = Inr (0, [], s')"
  using read_draining [OF assms, of max_len] by auto

lemma read_seq_draining:
  assumes "draining payload k s"
  shows "\<exists>rs s'. read_seq ms s =
            Inr (rs, take (min (sum_list (map unat ms)) (length payload - k)) (drop k payload), s') \<and>
            sum_list (map sint rs) = int (min (sum_list (map unat ms)) (length payload - k)) \<and>
            draining payload (k + min (sum_list (map unat ms)) (length payload - k)) s'"
  using assms
proof (induction ms arbitrary: k s)
  case Nil
  then show ?case by simp
next
  case (Cons m ms)
  define n where "n = min (unat m) (length payload - k)"
  obtain s1 where r1: "pglite_polling_read m s = Inr (of_nat n, take n (drop k payload), s1)"
    and d1: "draining payload (k + n) s1"
    using read_draining [OF Cons.prems, of m] unfolding n_def by blast
  define j where "j = min (sum_list (map unat ms)) (length payload - (k + n))"
  obtain rs s2 where r2: "read_seq ms s1 = Inr (rs, take j (drop (k + n) payload), s2)"
    and sum2: "sum_list (map sint rs) = int j"
    and d2: "draining payload (k + n + j) s2"
    using Cons.IH [OF d1] unfolding j_def by blast
  have tot: "min (sum_list (map unat (m # ms))) (length payload - k) = n + j"
    unfolding n_def j_def list.map sum_list.Cons by (rule min_split_sum)
  have nsmall: "n \<le> 65536"
    using Cons.prems unfolding draining_def unat_BUFFER_SIZE n_def by arith
  have bytes: "take n (drop k payload) @ take j (drop (k + n) payload) =
               take (n + j) (drop k payload)"
    using take_add [of n j "drop k payload"] by (simp add: add.commute)
  show ?case
    unfolding tot using r1 r2 sum2 d2 nsmall
    by (simp add: bytes sint_of_nat_small add.assoc)
qed

lemma initial_draining:
  assumes wf: "buffer_wf (g_input s)" and L: "length payload \<le> unat BUFFER_SIZE"
  shows "draining payload 0
           (pglite_signal_input_ready (of_nat (length payload)) (host_fill_input payload s))"
  using assms
  by (simp add: draining_def buffer_wf_def pglite_signal_input_ready_def host_fill_input_def)

lemma reset_keeps_input_data: "data (g_input (pglite_reset_buffers s)) = data (g_input s)"
  by (simp add: pglite_reset_buffers_def)

subsection \<open>Writing and acknowledging\<close>


lemma ack_fixpoint:
  "(pglite_ack_output s = s) =
     (status (g_output s) = BUFFER_EMPTY \<and> length_fld (g_output s) = 0)"
proof
  assume eq: "pglite_ack_output s = s"
  have "status (g_output (pglite_ack_output s)) = BUFFER_EMPTY"
    and "length_fld (g_output (pglite_ack_output s)) = 0"
    by (simp_all add: pglite_ack_output_def)
  then show "status (g_output s) = BUFFER_EMPTY \<and> length_fld (g_output s) = 0"
    by (simp add: eq)
next
  assume e: "status (g_output s) = BUFFER_EMPTY \<and> length_fld (g_output s) = 0"
  have "(g_output s)\<lparr>status := BUFFER_EMPTY, length_fld := 0\<rparr> = g_output s"
    using e by (cases "g_output s") simp
  then show "pglite_ack_output s = s"
    by (simp add: pglite_ack_output_def)
qed

subsection \<open>The echo emitter on \<^verbatim>\<open>hello\<close>\<close>

lemma echo_hello:
  assumes "channel_wf s"
  shows "\<exists>s'. process_message
                (signal_input_ready 5 (host_fill_input hello_bytes (reset_buffers s))) = Inr (0, s') \<and>
              get_output_length s' = 10 \<and>
              has_output s' = 1 \<and>
              host_read_output s' = [0x52, 0, 0, 0, 9] @ HELLO_bytes \<and>
              operation (g_control s') = OP_COMPLETED"
  using assms
  by (simp add: channel_wf_def buffer_wf_def unat_BUFFER_SIZE BUFFER_SIZE_val
      process_message_def signal_input_ready_def host_fill_input_def reset_buffers_def
      internal_read_def internal_write_def internal_flush_def memcpy_from_def memcpy_to_def
      status_defs hello_bytes_def HELLO_bytes_def Let_def header_bytes_def upcase_def
      get_output_length_def has_output_def host_read_output_def)

lemma message_after_pending_output:
  assumes wf: "channel_wf s" and pend: "length_fld (g_output s) = 65530"
  shows "\<exists>s'. process_message (signal_input_ready 5 (host_fill_input hello_bytes s)) = Inr (0, s') \<and>
              operation (g_control s') = OP_COMPLETED \<and>
              error_code (g_control s') = error_code (g_control s) \<and>
              get_output_length s' = 65535 \<and>
              take 5 (drop 65530 (data (g_output s'))) = [0x52, 0, 0, 0, 9]"
  using assms
  by (simp add: channel_wf_def buffer_wf_def unat_BUFFER_SIZE BUFFER_SIZE_val
      process_message_def signal_input_ready_def host_fill_input_def
      internal_read_def internal_write_def internal_flush_def memcpy_from_def memcpy_to_def
      status_defs hello_bytes_def Let_def header_bytes_def upcase_def
      get_output_length_def)

lemma write_fails:
  assumes "BUFFER_SIZE < length_fld (g_output s) + len"
  shows "internal_write buf len s =
           Inr (- 1, s\<lparr>g_output := (g_output s)\<lparr>status := BUFFER_READY\<rparr>,
                        g_control := (g_control s)\<lparr>operation := OP_WRITE_READY\<rparr>\<rparr>)"
  using assms by (simp add: internal_write_def)

lemma write_succeeds:
  assumes "\<not> BUFFER_SIZE < length_fld (g_output s) + len"
    and "unat (length_fld (g_output s)) + unat len \<le> length (data (g_output s))"
    and "unat len \<le> length buf"
  shows "internal_write buf len s =
           Inr (len, s\<lparr>g_output := (g_output s)
                          \<lparr>data := take (unat (length_fld (g_output s))) (data (g_output s)) @
                                   take (unat len) buf @
                                   drop (unat (length_fld (g_output s)) + unat len)
                                     (data (g_output s)),
                            length_fld := length_fld (g_output s) + len\<rparr>,
                        g_control := (g_control s)\<lparr>total_written :=
                                                    total_written (g_control s) + len\<rparr>\<rparr>)"
  using assms by (simp add: internal_write_def memcpy_to_def)

lemma unat_add_small:
  fixes x :: "32 word"
  assumes "unat x + k \<le> 65536"
  shows "unat (x + of_nat k) = unat x + k"
proof -
  have k: "unat (of_nat k :: 32 word) = k"
    using assms by (simp add: unat_of_nat_small)
  have "unat x + unat (of_nat k :: 32 word) < 2 ^ LENGTH(32)"
    using assms by (simp add: k)
  then show ?thesis
    by (simp add: unat_add_lem [THEN iffD1] k)
qed

lemma write_appends:
  assumes wf: "buffer_wf (g_output s)"
    and room: "unat (length_fld (g_output s)) + length buf \<le> 65536"
  shows "\<exists>s'. internal_write buf (of_nat (length buf)) s = Inr (of_nat (length buf), s') \<and>
              g_input s' = g_input s \<and>
              operation (g_control s') = operation (g_control s) \<and>
              error_code (g_control s') = error_code (g_control s) \<and>
              status (g_output s') = status (g_output s) \<and>
              buffer_wf (g_output s') \<and>
              length_fld (g_output s') = length_fld (g_output s) + of_nat (length buf) \<and>
              unat (length_fld (g_output s')) = unat (length_fld (g_output s)) + length buf \<and>
              data (g_output s') =
                take (unat (length_fld (g_output s))) (data (g_output s)) @ buf @
                drop (unat (length_fld (g_output s)) + length buf) (data (g_output s))"
proof -
  let ?n = "unat (length_fld (g_output s))"
  have ub: "unat (of_nat (length buf) :: 32 word) = length buf"
    using room by (simp add: unat_of_nat_small)
  have sum: "unat (length_fld (g_output s) + of_nat (length buf)) = ?n + length buf"
    using room by (rule unat_add_small)
  have no: "\<not> BUFFER_SIZE < length_fld (g_output s) + of_nat (length buf)"
    using room by (simp add: word_less_nat_alt sum unat_BUFFER_SIZE)
  have fit: "?n + unat (of_nat (length buf) :: 32 word) \<le> length (data (g_output s))"
    using wf room by (simp add: buffer_wf_def unat_BUFFER_SIZE ub)
  have src: "unat (of_nat (length buf) :: 32 word) \<le> length buf"
    by (simp add: ub)
  show ?thesis
    using wf room
    by (simp add: write_succeeds [OF no fit src] ub sum buffer_wf_def unat_BUFFER_SIZE)
qed

subsection \<open>The echo emitter with room in the output buffer\<close>

lemma process_message_appends:
  assumes wf: "channel_wf s"
    and L1: "0 < length payload" and L2: "length payload \<le> 1023"
    and room: "unat (length_fld (g_output s)) + 5 + length payload \<le> 65536"
  shows "\<exists>s'. process_message
                (signal_input_ready (of_nat (length payload)) (host_fill_input payload s)) =
                Inr (0, s') \<and>
              channel_wf s' \<and>
              operation (g_control s') = OP_COMPLETED \<and>
              error_code (g_control s') = error_code (g_control s) \<and>
              status (g_output s') = BUFFER_READY \<and>
              unat (length_fld (g_output s')) =
                unat (length_fld (g_output s)) + 5 + length payload \<and>
              take (5 + length payload) (drop (unat (length_fld (g_output s))) (data (g_output s'))) =
                header_bytes 0x52 (of_nat (length payload) + 4) @ map upcase payload \<and>
              take (unat (length_fld (g_output s))) (data (g_output s')) =
                take (unat (length_fld (g_output s))) (data (g_output s))"
proof -
  let ?L = "length payload"
  let ?n = "unat (length_fld (g_output s))"
  define s0 where "s0 = signal_input_ready (of_nat ?L) (host_fill_input payload s)"
  have wfi: "buffer_wf (g_input s)" and wfo: "buffer_wf (g_output s)"
    using wf by (simp_all add: channel_wf_def)
  have cap: "?L \<le> unat BUFFER_SIZE"
    using L2 by (simp add: unat_BUFFER_SIZE)
  have d0: "draining payload 0 s0"
    unfolding s0_def signal_input_ready_eq by (rule initial_draining [OF wfi cap])
  have out0: "g_output s0 = g_output s"
    by (simp add: s0_def signal_input_ready_def host_fill_input_def)
  have m: "min (unat (1023 :: size_t)) (?L - 0) = ?L"
    using L2 by simp
  obtain s1 where r: "internal_read 1023 s0 = Inr (of_nat ?L, payload, s1)"
    using read_draining [OF d0, of 1023] unfolding m internal_read_eq by auto
  have out1: "g_output s1 = g_output s"
    using read_frame(1) [OF r [unfolded internal_read_eq]] out0 by simp
  have ec1: "error_code (g_control s1) = error_code (g_control s)"
    using read_frame(3) [OF r [unfolded internal_read_eq]]
    by (simp add: s0_def signal_input_ready_def host_fill_input_def)
  have wfi1: "buffer_wf (g_input s1)"
    using read_frame(2) [OF r [unfolded internal_read_eq]] wfi cap
    by (simp add: buffer_wf_def s0_def signal_input_ready_def host_fill_input_def)
  have pos: "\<not> sint (of_nat ?L :: 32 word) \<le> 0"
    using L1 L2 by (simp add: sint_of_nat_small)
  define header where "header = header_bytes 0x52 (of_nat ?L + 4)"
  have hl: "length header = 5"
    by (simp add: header_def header_bytes_def)
  have wfo1: "buffer_wf (g_output s1)"
    using wfo by (simp add: out1)
  have room1: "unat (length_fld (g_output s1)) + length header \<le> 65536"
    using room by (simp add: out1 hl)
  obtain s2 where w1: "internal_write header 5 s1 = Inr (5, s2)"
    and in2: "g_input s2 = g_input s1"
    and ec2: "error_code (g_control s2) = error_code (g_control s1)"
    and st2: "status (g_output s2) = status (g_output s1)"
    and wfo2: "buffer_wf (g_output s2)"
    and n2: "unat (length_fld (g_output s2)) = ?n + 5"
    and dat2: "data (g_output s2) =
                 take ?n (data (g_output s)) @ header @ drop (?n + 5) (data (g_output s))"
    using write_appends [OF wfo1 room1] by (auto simp: hl out1)
  have room2: "unat (length_fld (g_output s2)) + length (map upcase payload) \<le> 65536"
    using room by (simp add: n2)
  obtain s3 where
    w2: "internal_write (map upcase payload) (of_nat ?L) s2 = Inr (of_nat ?L, s3)"
    and in3: "g_input s3 = g_input s2"
    and ec3: "error_code (g_control s3) = error_code (g_control s2)"
    and wfo3: "buffer_wf (g_output s3)"
    and n3: "unat (length_fld (g_output s3)) = ?n + 5 + ?L"
    and dat3: "data (g_output s3) =
                 take (?n + 5) (data (g_output s2)) @ map upcase payload @
                 drop (?n + 5 + ?L) (data (g_output s2))"
    using write_appends [OF wfo2 room2] by (auto simp: n2)
  have nz: "0 < length_fld (g_output s3)"
    using n3 by (simp add: word_less_nat_alt)
  define s4 where "s4 = internal_flush s3"
  have s4: "status (g_output s4) = BUFFER_READY" "g_input s4 = g_input s3"
    "length_fld (g_output s4) = length_fld (g_output s3)"
    "data (g_output s4) = data (g_output s3)"
    "error_code (g_control s4) = error_code (g_control s3)"
    using nz by (simp_all add: s4_def internal_flush_def)
  define s5 where "s5 = s4\<lparr>g_control := (g_control s4)\<lparr>operation := OP_COMPLETED\<rparr>\<rparr>"
  have run: "process_message s0 = Inr (0, s5)"
    using pos
    by (simp add: process_message_def r w1 w2 Let_def s5_def s4_def flip: header_def)
  have ln: "?n \<le> length (data (g_output s))"
    using wfo room by (simp add: buffer_wf_def unat_BUFFER_SIZE)
  have d3: "data (g_output s3) =
              take ?n (data (g_output s)) @ header @ map upcase payload @
              drop (?n + 5 + ?L) (data (g_output s))"
    using ln hl by (simp add: dat3 dat2 add.commute add.left_commute)
  have wf5: "channel_wf s5"
    using wfo3 wfi1 by (simp add: channel_wf_def buffer_wf_def s5_def s4 in3 in2)
  have bytes: "take (5 + ?L) (drop ?n (data (g_output s5))) = header @ map upcase payload"
    using ln hl by (simp add: s5_def s4 d3)
  have keep: "take ?n (data (g_output s5)) = take ?n (data (g_output s))"
    using ln by (simp add: s5_def s4 d3)
  show ?thesis
    unfolding s0_def [symmetric] run header_def [symmetric]
    using wf5 bytes keep n3 by (simp add: s5_def s4 ec3 ec2 ec1)
qed

lemma echo_cycles_append_output:
  assumes "channel_wf s"
    and "\<forall>p \<in> set ps. 0 < length p \<and> length p \<le> 1023"
    and "unat (length_fld (g_output s)) + sum_list (map (\<lambda>p. 5 + length p) ps) \<le> 65536"
  shows "\<exists>s'. echo_cycles ps s = Inr s' \<and> channel_wf s' \<and>
              error_code (g_control s') = error_code (g_control s) \<and>
              unat (length_fld (g_output s')) =
                unat (length_fld (g_output s)) + sum_list (map (\<lambda>p. 5 + length p) ps)"
  using assms
proof (induction ps arbitrary: s)
  case Nil
  then show ?case by simp
next
  case (Cons p ps)
  have p: "0 < length p" "length p \<le> 1023"
    using Cons.prems(2) by simp_all
  have room: "unat (length_fld (g_output s)) + 5 + length p \<le> 65536"
    using Cons.prems(3) by simp
  obtain s1 where
    run: "process_message (signal_input_ready (of_nat (length p)) (host_fill_input p s)) =
            Inr (0, s1)"
    and wf1: "channel_wf s1"
    and ec1: "error_code (g_control s1) = error_code (g_control s)"
    and n1: "unat (length_fld (g_output s1)) = unat (length_fld (g_output s)) + 5 + length p"
    using process_message_appends [OF Cons.prems(1) p room] by blast
  have rest: "\<forall>p \<in> set ps. 0 < length p \<and> length p \<le> 1023"
    using Cons.prems(2) by simp
  have room1: "unat (length_fld (g_output s1)) + sum_list (map (\<lambda>p. 5 + length p) ps) \<le> 65536"
    using Cons.prems(3) by (simp add: n1)
  show ?case
    using Cons.IH [OF wf1 rest room1] by (simp add: run ec1 n1 add.assoc)
qed

lemma pending_output_reachable:
  "\<exists>p. echo_cycles (replicate 63 (replicate 1023 0x61) @ [replicate 761 0x61])
          (reset_buffers zero_channel) = Inr p \<and>
       channel_wf p \<and> error_code (g_control p) = 0 \<and> length_fld (g_output p) = 65530"
proof -
  have wf: "channel_wf (reset_buffers zero_channel)"
    using channel_wf_zero by (simp add: channel_wf_def buffer_wf_def reset_buffers_def)
  have z: "unat (length_fld (g_output (reset_buffers zero_channel))) = 0"
    "error_code (g_control (reset_buffers zero_channel)) = 0"
    by (simp_all add: reset_buffers_def)
  have sz: "sum_list (map (\<lambda>p. 5 + length p)
              (replicate 63 (replicate 1023 (0x61 :: uint8_t)) @ [replicate 761 0x61])) = 65530"
    by (simp add: sum_list_replicate)
  obtain p where "echo_cycles (replicate 63 (replicate 1023 0x61) @ [replicate 761 0x61])
          (reset_buffers zero_channel) = Inr p"
    and "channel_wf p" and "error_code (g_control p) = 0"
    and n: "unat (length_fld (g_output p)) = 65530"
    using echo_cycles_append_output [OF wf, of
        "replicate 63 (replicate 1023 0x61) @ [replicate 761 0x61]"]
    unfolding sz z by auto
  moreover have "length_fld (g_output p) = 65530"
    using n by (simp add: word_unat_eq_iff)
  ultimately show ?thesis by blast
qed

subsection \<open>The multi-row emitter stops at a failed write\<close>

lemma row_text_example:
  "row_text 1 3 = [0x52, 0x6F, 0x77, 0x20, 0x31, 0x20, 0x6F, 0x66, 0x20, 0x33, 0x0A]"
  by (simp add: row_text_def fmt_int_def dec_digits.simps)

lemma multi_row_header_write_fails:
  assumes more: "sint i < sint num_rows"
    and full: "BUFFER_SIZE < length_fld (g_output s) + 5"
  shows "\<exists>s'. process_multi_row_loop i num_rows s = Inr (- 1, s') \<and>
              error_code (g_control s') = - 2 \<and>
              operation (g_control s') = OP_ERROR \<and>
              length_fld (g_output s') = length_fld (g_output s) \<and>
              data (g_output s') = data (g_output s)"
  using more
  by (subst process_multi_row_loop.simps)
    (simp add: write_fails [OF full] Let_def split: prod.splits)

lemma multi_row_payload_write_fails:
  assumes more: "sint i < sint num_rows"
    and room: "\<not> BUFFER_SIZE < length_fld (g_output s) + 5"
    and wf: "unat (length_fld (g_output s)) + 5 \<le> length (data (g_output s))"
    and full: "BUFFER_SIZE <
                 length_fld (g_output s) + 5 + snd (snprintf_row 64 (i + 1) num_rows)"
  shows "\<exists>s'. process_multi_row_loop i num_rows s = Inr (- 1, s') \<and>
              error_code (g_control s') = - 3 \<and>
              operation (g_control s') = OP_ERROR \<and>
              length_fld (g_output s') = length_fld (g_output s) + 5 \<and>
              take 5 (drop (unat (length_fld (g_output s))) (data (g_output s'))) =
                header_bytes 0x44 (snd (snprintf_row 64 (i + 1) num_rows) + 4)"
proof -
  obtain row_data len where sn: "snprintf_row 64 (i + 1) num_rows = (row_data, len)"
    by (cases "snprintf_row 64 (i + 1) num_rows")
  define s1 where "s1 =
    s\<lparr>g_output := (g_output s)
          \<lparr>data := take (unat (length_fld (g_output s))) (data (g_output s)) @
                   take (unat (5 :: size_t)) (header_bytes 0x44 (len + 4)) @
                   drop (unat (length_fld (g_output s)) + unat (5 :: size_t)) (data (g_output s)),
            length_fld := length_fld (g_output s) + 5\<rparr>,
      g_control := (g_control s)\<lparr>total_written := total_written (g_control s) + 5\<rparr>\<rparr>"
  have w1: "internal_write (header_bytes 0x44 (len + 4)) 5 s = Inr (5, s1)"
    unfolding s1_def using wf by (intro write_succeeds [OF room]) (simp_all add: header_bytes_def)
  have full1: "BUFFER_SIZE < length_fld (g_output s1) + len"
    using full by (simp add: s1_def sn)
  have hd: "take 5 (drop (unat (length_fld (g_output s))) (data (g_output s1))) =
              header_bytes 0x44 (len + 4)"
    using wf by (simp add: s1_def header_bytes_def)
  have len1: "length_fld (g_output s1) = length_fld (g_output s) + 5"
    by (simp add: s1_def)
  define s2 where "s2 =
    s1\<lparr>g_output := (g_output s1)\<lparr>status := BUFFER_READY\<rparr>,
       g_control := (g_control s1)\<lparr>operation := OP_WRITE_READY\<rparr>\<rparr>"
  have w2: "internal_write row_data len s1 = Inr (- 1, s2)"
    unfolding s2_def by (rule write_fails [OF full1])
  have run: "process_multi_row_loop i num_rows s =
               Inr (- 1, s2\<lparr>g_control := (g_control s2)\<lparr>error_code := - 3,
                                                         operation := OP_ERROR\<rparr>\<rparr>)"
    using more by (subst process_multi_row_loop.simps) (simp add: sn w1 w2 Let_def)
  show ?thesis
    unfolding run using hd len1 by (simp add: s2_def sn)
qed

lemma multi_row_example:
  "\<exists>s'. process_multi_row 1 (zero_channel\<lparr>g_output := zero_buffer\<lparr>length_fld := 65530\<rparr>\<rparr>) =
          Inr (- 1, s') \<and>
        error_code (g_control s') = - 3 \<and>
        operation (g_control s') = OP_ERROR \<and>
        length_fld (g_output s') = 65535"
proof -
  have "\<exists>s'. process_multi_row_loop 0 1
               (zero_channel\<lparr>g_output := zero_buffer\<lparr>length_fld := 65530\<rparr>\<rparr>) = Inr (- 1, s') \<and>
             error_code (g_control s') = - 3 \<and>
             operation (g_control s') = OP_ERROR \<and>
             length_fld (g_output s') = 65530 + 5 \<and>
             take 5 (drop 65530 (data (g_output s'))) =
               header_bytes 0x44 (snd (snprintf_row 64 (0 + 1) 1) + 4)"
    using multi_row_payload_write_fails
      [where i = 0 and num_rows = 1
         and s = "zero_channel\<lparr>g_output := zero_buffer\<lparr>length_fld := 65530\<rparr>\<rparr>"]
    by (simp add: BUFFER_SIZE_val zero_channel_def zero_buffer_def
        unat_BUFFER_SIZE snprintf_row_def row_text_def fmt_int_def dec_digits.simps)
  then show ?thesis
    by (auto simp: process_multi_row_def)
qed

subsection \<open>Sample runs\<close>

lemma hello_ready_wf:
  "buffer_wf (g_input zero_channel)" "length hello_bytes \<le> unat PGLITE_BUFFER_SIZE"
  by (simp_all add: buffer_wf_def zero_channel_def zero_buffer_def hello_bytes_def BUFFER_SIZE_val)

lemma read_seq_example:
  "\<exists>s'. read_seq [2, 10] (pglite_signal_input_ready 5
                         (host_fill_input hello_bytes (pglite_reset_buffers zero_channel))) =
        Inr ([2, 3], hello_bytes, s')"
  by (simp add: pglite_polling_read_def pglite_signal_input_ready_def host_fill_input_def
      pglite_reset_buffers_def zero_channel_def zero_buffer_def memcpy_from_def
      unat_BUFFER_SIZE hello_bytes_def status_defs Let_def)

lemma sample_read:
  "pglite_polling_read 2
     (pglite_signal_input_ready 5 (host_fill_input hello_bytes zero_channel)) =
   Inr (2, [0x68, 0x65],
     (pglite_signal_input_ready 5 (host_fill_input hello_bytes zero_channel))
       \<lparr>g_control := \<lparr>operation = 0, error_code = 0, read_offset = 2,
                      total_read = 2, total_written = 0\<rparr>\<rparr>)"
  by (simp add: pglite_polling_read_def pglite_signal_input_ready_def host_fill_input_def
      zero_channel_def zero_buffer_def memcpy_from_def unat_BUFFER_SIZE hello_bytes_def
      status_defs Let_def)

lemma sample_write:
  "pglite_polling_write hello_bytes 5
     (pglite_signal_input_ready 5 (host_fill_input hello_bytes zero_channel)) =
   Inr (5,
     (pglite_signal_input_ready 5 (host_fill_input hello_bytes zero_channel))
       \<lparr>g_output := \<lparr>status = 0, length_fld = 5,
                     data = hello_bytes @ replicate 65531 0\<rparr>,
        g_control := \<lparr>operation = 0, error_code = 0, read_offset = 0,
                      total_read = 0, total_written = 5\<rparr>\<rparr>)"
  by (simp add: pglite_polling_write_def pglite_signal_input_ready_def host_fill_input_def
      zero_channel_def zero_buffer_def memcpy_to_def unat_BUFFER_SIZE BUFFER_SIZE_val
      hello_bytes_def status_defs)

section \<open>The claims\<close>

subsection \<open>C1: round trip\<close>

text \<open>
  C1. For every payload of length \<open>L \<le> 65536\<close>: reset the channel, place the payload
  in the input buffer's data, call \<^verbatim>\<open>signal_input_ready(L)\<close>, and call the adapter's
  read repeatedly, with any maximum lengths that add up to at least \<open>L\<close>. No read
  leaves the array, the bytes returned are the payload in its order, the returned
  lengths add up to \<open>L\<close>, and one more read, with any maximum, returns 0.
\<close>

theorem round_trip:
  assumes wf: "buffer_wf (g_input s)"
    and L: "length payload \<le> unat PGLITE_BUFFER_SIZE"
    and enough: "length payload \<le> sum_list (map unat ms)"
  shows "\<exists>rs s'.
           read_seq ms (pglite_signal_input_ready (of_nat (length payload))
                          (host_fill_input payload (pglite_reset_buffers s))) = Inr (rs, payload, s') \<and>
           sum_list (map sint rs) = int (length payload) \<and>
           (\<forall>m. \<exists>s''. pglite_polling_read m s' = Inr (0, [], s''))"
proof -
  have wf': "buffer_wf (g_input (pglite_reset_buffers s))"
    using wf by (simp add: buffer_wf_def reset_keeps_input_data)
  have L': "length payload \<le> unat BUFFER_SIZE"
    using L by (simp add: BUFFER_SIZE_val)
  have k: "min (sum_list (map unat ms)) (length payload - 0) = length payload"
    using enough by simp
  obtain rs s' where
    r: "read_seq ms (pglite_signal_input_ready (of_nat (length payload))
                       (host_fill_input payload (pglite_reset_buffers s))) =
          Inr (rs, take (length payload) (drop 0 payload), s')"
    and sum: "sum_list (map sint rs) = int (length payload)"
    and d: "draining payload (0 + length payload) s'"
    using read_seq_draining [OF initial_draining [OF wf' L'], of ms] unfolding k by blast
  have "\<forall>m. \<exists>s''. pglite_polling_read m s' = Inr (0, [], s'')"
    using d by (simp add: read_drained)
  with r sum show ?thesis by simp
qed

text \<open>The theorem at \<^verbatim>\<open>hello\<close>, read in two calls that ask for 2 and for 10 bytes.\<close>

theorem round_trip_witness:
  "buffer_wf (g_input zero_channel) \<and>
   length hello_bytes \<le> unat PGLITE_BUFFER_SIZE \<and>
   length hello_bytes \<le> sum_list (map unat [2, 10 :: size_t]) \<and>
   (\<exists>rs s'.
      read_seq [2, 10] (pglite_signal_input_ready (of_nat (length hello_bytes))
                         (host_fill_input hello_bytes (pglite_reset_buffers zero_channel))) =
        Inr (rs, hello_bytes, s') \<and>
      sum_list (map sint rs) = int (length hello_bytes) \<and>
      (\<forall>m. \<exists>s''. pglite_polling_read m s' = Inr (0, [], s'')))"
proof -
  have e: "length hello_bytes \<le> sum_list (map unat [2, 10 :: size_t])"
    by (simp add: hello_bytes_def)
  show ?thesis
    using round_trip [OF hello_ready_wf e] hello_ready_wf e by (intro conjI)
qed

subsection \<open>C2: overflow\<close>




subsection \<open>C3: the echo scenario\<close>

text \<open>
  C3, amended. From a reset channel, with the 5 bytes \<^verbatim>\<open>hello\<close> in the input buffer
  and \<^verbatim>\<open>signal_input_ready(5)\<close>, \<^verbatim>\<open>process_message\<close> returns 0 and leaves an output
  buffer that is Ready, whose length field is 10 (5 header bytes and 5 payload
  bytes), and whose bytes are \<^verbatim>\<open>'R'\<close>, the big-endian encoding of 9, and \<^verbatim>\<open>HELLO\<close>.
\<close>

theorem echo_scenario:
  assumes "channel_wf s"
  shows "\<exists>s'. process_message
                (signal_input_ready 5 (host_fill_input hello_bytes (reset_buffers s))) = Inr (0, s') \<and>
              get_output_length s' = 10 \<and>
              has_output s' = 1 \<and>
              host_read_output s' = [0x52, 0, 0, 0, 9] @ HELLO_bytes \<and>
              operation (g_control s') = OP_COMPLETED"
  using assms by (rule echo_hello)

text \<open>The theorem on the zero-initialised channel.\<close>

theorem echo_scenario_witness:
  "channel_wf zero_channel \<and>
   (\<exists>s'. process_message
            (signal_input_ready 5 (host_fill_input hello_bytes (reset_buffers zero_channel))) =
          Inr (0, s') \<and>
        get_output_length s' = 10 \<and>
        has_output s' = 1 \<and>
        host_read_output s' = [0x52, 0, 0, 0, 9, 0x48, 0x45, 0x4C, 0x4C, 0x4F] \<and>
        operation (g_control s') = OP_COMPLETED)"
  using echo_scenario [OF channel_wf_zero] channel_wf_zero by (simp add: HELLO_bytes_def)

text \<open>
  The length field after the echo of \<^verbatim>\<open>hello\<close> on the zero-initialised channel is
  10, not the 14 the claim states.
\<close>

theorem echo_output_length_is_not_14:
  "\<not> isl (process_message
            (signal_input_ready 5 (host_fill_input hello_bytes (reset_buffers zero_channel)))) \<and>
   get_output_length (snd (projr (process_message
            (signal_input_ready 5 (host_fill_input hello_bytes (reset_buffers zero_channel)))))) = 10 \<and>
   get_output_length (snd (projr (process_message
            (signal_input_ready 5 (host_fill_input hello_bytes (reset_buffers zero_channel)))))) \<noteq> 14"
proof -
  obtain s' where
    "process_message
       (signal_input_ready 5 (host_fill_input hello_bytes (reset_buffers zero_channel))) = Inr (0, s')"
    and "get_output_length s' = 10"
    using echo_hello [OF channel_wf_zero] by blast
  then show ?thesis by simp
qed

subsection \<open>C4: a write that fails in the middle of a message\<close>

text \<open>
  C4. The multi-row emitter stops at a failed write with error code \<open>-2\<close> or \<open>-3\<close>
  and operation Error (\<open>multi_row_header_write_fails\<close>,
  \<open>multi_row_payload_write_fails\<close>). The echo emitter does not: it drops the results
  of its writes. After 63 echo cycles of a 1023-byte input and one of a 761-byte
  input, none acknowledged, 65530 bytes are pending in the output buffer. For
  \<^verbatim>\<open>hello\<close> the header then fits and the payload does not, yet \<^verbatim>\<open>process_message\<close>
  returns 0, the operation is Completed, the error code is still 0, and the output
  buffer ends with a header that no payload follows.
\<close>

theorem process_message_drops_write_failure:
  "\<exists>p s'. echo_cycles (replicate 63 (replicate 1023 0x61) @ [replicate 761 0x61])
            (reset_buffers zero_channel) = Inr p \<and>
          get_output_length p = 65530 \<and>
          process_message (signal_input_ready 5 (host_fill_input hello_bytes p)) = Inr (0, s') \<and>
          operation (g_control s') = OP_COMPLETED \<and>
          error_code (g_control s') = 0 \<and>
          get_output_length s' = 65535 \<and>
          take 5 (drop 65530 (data (g_output s'))) = [0x52, 0, 0, 0, 9]"
proof -
  obtain p where
    c: "echo_cycles (replicate 63 (replicate 1023 0x61) @ [replicate 761 0x61])
          (reset_buffers zero_channel) = Inr p"
    and wf: "channel_wf p" and ec: "error_code (g_control p) = 0"
    and len: "length_fld (g_output p) = 65530"
    using pending_output_reachable by blast
  from message_after_pending_output [OF wf len] c ec len show ?thesis
    by (auto simp: get_output_length_def)
qed

subsection \<open>C5: acknowledging when no output is ready\<close>

text \<open>
  C5, amended. In every channel state \<^verbatim>\<open>acknowledge_output\<close> returns, leaves the
  output buffer Empty with length 0 (so \<^verbatim>\<open>has_output()\<close> is false afterwards) and
  leaves the output data, the input buffer and the control block as they were. It
  changes nothing exactly when the output buffer was already Empty with length 0.
  The header's function and the test module's agree.
\<close>

theorem ack_clears_output:
  "status (g_output (pglite_ack_output s)) = BUFFER_EMPTY \<and>
   length_fld (g_output (pglite_ack_output s)) = 0 \<and>
   pglite_has_output (pglite_ack_output s) = 0 \<and>
   data (g_output (pglite_ack_output s)) = data (g_output s) \<and>
   g_input (pglite_ack_output s) = g_input s \<and>
   g_control (pglite_ack_output s) = g_control s \<and>
   (pglite_ack_output s = s) =
     (status (g_output s) = BUFFER_EMPTY \<and> length_fld (g_output s) = 0) \<and>
   ack_output s = pglite_ack_output s"
  unfolding ack_fixpoint
  by (simp add: pglite_ack_output_def ack_output_def pglite_has_output_def status_defs)

text \<open>
  After a reset and a write of one byte that is not flushed, \<^verbatim>\<open>has_output()\<close> is
  false and the length is 1; the acknowledgement sets the length to 0, so it is not
  a no-op there.
\<close>

theorem unflushed_ack:
  "\<not> isl (pglite_polling_write [0x41] 1 (pglite_reset_buffers zero_channel)) \<and>
   pglite_has_output (snd (projr (pglite_polling_write [0x41] 1 (pglite_reset_buffers zero_channel)))) = 0 \<and>
   length_fld (g_output (snd (projr (pglite_polling_write [0x41] 1 (pglite_reset_buffers zero_channel))))) = 1 \<and>
   length_fld (g_output (pglite_ack_output
      (snd (projr (pglite_polling_write [0x41] 1 (pglite_reset_buffers zero_channel)))))) = 0 \<and>
   pglite_ack_output (snd (projr (pglite_polling_write [0x41] 1 (pglite_reset_buffers zero_channel)))) \<noteq>
     snd (projr (pglite_polling_write [0x41] 1 (pglite_reset_buffers zero_channel)))"
  by (simp add: pglite_polling_write_def pglite_reset_buffers_def zero_channel_def zero_buffer_def
      memcpy_to_def BUFFER_SIZE_val unat_BUFFER_SIZE pglite_has_output_def
      ack_fixpoint status_defs)
     (simp add: pglite_ack_output_def)

subsection \<open>C6: partial read\<close>

text \<open>
  C6. For every input of length \<open>L \<le> 65536\<close> signalled ready and every
  \<open>max_len < L\<close>, the first read returns \<open>max_len\<close> and the first \<open>max_len\<close> bytes
  and leaves the input status Ready; a second read that asks for at least
  \<open>L - max_len\<close> bytes returns \<open>L - max_len\<close> and the remaining bytes.
\<close>

theorem partial_read:
  fixes max_len max_len2 :: size_t
  assumes wf: "buffer_wf (g_input s)"
    and L: "length payload \<le> unat PGLITE_BUFFER_SIZE"
    and less: "unat max_len < length payload"
    and rest: "length payload - unat max_len \<le> unat max_len2"
  shows "\<exists>s1 s2.
           pglite_polling_read max_len
             (pglite_signal_input_ready (of_nat (length payload)) (host_fill_input payload s)) =
             Inr (max_len, take (unat max_len) payload, s1) \<and>
           status (g_input s1) = BUFFER_READY \<and>
           pglite_polling_read max_len2 s1 =
             Inr (of_nat (length payload - unat max_len), drop (unat max_len) payload, s2)"
proof -
  have L': "length payload \<le> unat BUFFER_SIZE"
    using L by (simp add: BUFFER_SIZE_val)
  have n1: "min (unat max_len) (length payload - 0) = unat max_len"
    using less by simp
  obtain s1 where
    r1: "pglite_polling_read max_len
           (pglite_signal_input_ready (of_nat (length payload)) (host_fill_input payload s)) =
           Inr (of_nat (unat max_len), take (unat max_len) (drop 0 payload), s1)"
    and d1: "draining payload (0 + unat max_len) s1"
    using read_draining [OF initial_draining [OF wf L'], of max_len] unfolding n1 by blast
  have st: "status (g_input s1) = BUFFER_READY"
    using d1 less by (simp add: draining_def)
  have n2: "min (unat max_len2) (length payload - (0 + unat max_len)) =
            length payload - unat max_len"
    using rest by simp
  obtain s2 where
    r2: "pglite_polling_read max_len2 s1 =
           Inr (of_nat (length payload - unat max_len),
                take (length payload - unat max_len) (drop (0 + unat max_len) payload), s2)"
    using read_draining [OF d1, of max_len2] unfolding n2 by blast
  from r1 st r2 show ?thesis by simp
qed

text \<open>The theorem at \<^verbatim>\<open>hello\<close>: a read of 2 bytes, then a read of up to 1023.\<close>

theorem partial_read_witness:
  "buffer_wf (g_input zero_channel) \<and>
   length hello_bytes \<le> unat PGLITE_BUFFER_SIZE \<and>
   unat (2 :: size_t) < length hello_bytes \<and>
   length hello_bytes - unat (2 :: size_t) \<le> unat (1023 :: size_t) \<and>
   (\<exists>s1 s2.
      pglite_polling_read 2
        (pglite_signal_input_ready (of_nat (length hello_bytes))
           (host_fill_input hello_bytes zero_channel)) =
        Inr (2, [0x68, 0x65], s1) \<and>
      status (g_input s1) = BUFFER_READY \<and>
      pglite_polling_read 1023 s1 = Inr (3, [0x6C, 0x6C, 0x6F], s2))"
proof -
  have a: "unat (2 :: size_t) < length hello_bytes"
    and b: "length hello_bytes - unat (2 :: size_t) \<le> unat (1023 :: size_t)"
    by (simp_all add: hello_bytes_def)
  have "\<exists>s1 s2.
      pglite_polling_read 2
        (pglite_signal_input_ready (of_nat (length hello_bytes))
           (host_fill_input hello_bytes zero_channel)) =
        Inr (2, [0x68, 0x65], s1) \<and>
      status (g_input s1) = BUFFER_READY \<and>
      pglite_polling_read 1023 s1 = Inr (3, [0x6C, 0x6C, 0x6F], s2)"
    using partial_read [OF hello_ready_wf a b] by (simp add: hello_bytes_def)
  then show ?thesis
    using hello_ready_wf a b by (intro conjI)
qed

subsection \<open>C7: flush\<close>

text \<open>
  C7. In every channel state: if the output length is positive, flush sets the
  output status to Ready and the operation to WriteReady; if it is 0, flush changes
  nothing; and flush never changes the output length or the output data. The
  header's flush and the test module's agree.
\<close>

theorem flush_marks_nonempty_output:
  "(0 < length_fld (g_output s) \<longrightarrow>
      status (g_output (pglite_polling_flush s)) = BUFFER_READY \<and>
      operation (g_control (pglite_polling_flush s)) = OP_WRITE_READY) \<and>
   (length_fld (g_output s) = 0 \<longrightarrow> pglite_polling_flush s = s) \<and>
   length_fld (g_output (pglite_polling_flush s)) = length_fld (g_output s) \<and>
   data (g_output (pglite_polling_flush s)) = data (g_output s) \<and>
   internal_flush s = pglite_polling_flush s"
  by (simp add: pglite_polling_flush_def internal_flush_def)

text \<open>The theorem at an output buffer of length 3 and at the empty one.\<close>

theorem flush_marks_nonempty_output_witness:
  "0 < length_fld (g_output (zero_channel\<lparr>g_output := zero_buffer\<lparr>length_fld := 3\<rparr>\<rparr>)) \<and>
   status (g_output (pglite_polling_flush
      (zero_channel\<lparr>g_output := zero_buffer\<lparr>length_fld := 3\<rparr>\<rparr>))) = BUFFER_READY \<and>
   operation (g_control (pglite_polling_flush
      (zero_channel\<lparr>g_output := zero_buffer\<lparr>length_fld := 3\<rparr>\<rparr>))) = OP_WRITE_READY \<and>
   length_fld (g_output (pglite_polling_flush
      (zero_channel\<lparr>g_output := zero_buffer\<lparr>length_fld := 3\<rparr>\<rparr>))) = 3 \<and>
   length_fld (g_output zero_channel) = 0 \<and>
   pglite_polling_flush zero_channel = zero_channel"
proof -
  have a: "0 < length_fld (g_output (zero_channel\<lparr>g_output := zero_buffer\<lparr>length_fld := 3\<rparr>\<rparr>))"
    by simp
  have b: "length_fld (g_output zero_channel) = 0"
    by (simp add: zero_channel_def zero_buffer_def)
  show ?thesis
    using flush_marks_nonempty_output [of "zero_channel\<lparr>g_output := zero_buffer\<lparr>length_fld := 3\<rparr>\<rparr>"]
      flush_marks_nonempty_output [of zero_channel] a b
    by simp
qed

subsection \<open>C8: reset\<close>

text \<open>
  C8. In every channel state, right after a reset \<^verbatim>\<open>has_output()\<close> returns 0,
  \<^verbatim>\<open>get_output_length()\<close> returns 0, both counters are 0, both buffers are Empty
  with length 0, and the control block is all zero.
\<close>

theorem reset_completeness:
  "pglite_has_output (pglite_reset_buffers s) = 0 \<and>
   pglite_get_output_length (pglite_reset_buffers s) = 0 \<and>
   total_read (g_control (pglite_reset_buffers s)) = 0 \<and>
   total_written (g_control (pglite_reset_buffers s)) = 0 \<and>
   status (g_input (pglite_reset_buffers s)) = BUFFER_EMPTY \<and>
   length_fld (g_input (pglite_reset_buffers s)) = 0 \<and>
   status (g_output (pglite_reset_buffers s)) = BUFFER_EMPTY \<and>
   length_fld (g_output (pglite_reset_buffers s)) = 0 \<and>
   g_control (pglite_reset_buffers s) =
     \<lparr>operation = OP_NONE, error_code = 0, read_offset = 0, total_read = 0, total_written = 0\<rparr>"
  by (simp add: pglite_reset_buffers_def pglite_has_output_def pglite_get_output_length_def
      status_defs)

subsection \<open>C9: the read cursor stays inside the input\<close>

text \<open>
  C9. \<^verbatim>\<open>read_offset <= input.length\<close> holds in the zero-initialised channel, after a
  reset and after \<^verbatim>\<open>signal_input_ready\<close> with any length; a read, a write, a flush
  and an acknowledgement that start where it holds end where it holds. Where it
  holds, the subtraction \<^verbatim>\<open>input.length - read_offset\<close> of the read is the exact
  difference, and a read returns (it does not leave the array) as long as the
  signalled length fits the input array.
\<close>

theorem read_offset_invariant:
  "offset_inv zero_channel \<and>
   offset_inv (pglite_reset_buffers s) \<and>
   offset_inv (pglite_signal_input_ready len s) \<and>
   (offset_inv s \<longrightarrow>
      (\<forall>n bytes s'. pglite_polling_read max_len s = Inr (n, bytes, s') \<longrightarrow> offset_inv s') \<and>
      (\<forall>n s'. pglite_polling_write buf wlen s = Inr (n, s') \<longrightarrow> offset_inv s') \<and>
      offset_inv (pglite_polling_flush s) \<and>
      offset_inv (pglite_ack_output s) \<and>
      uint (length_fld (g_input s) - read_offset (g_control s)) =
        uint (length_fld (g_input s)) - uint (read_offset (g_control s)) \<and>
      (unat (length_fld (g_input s)) \<le> length (data (g_input s)) \<longrightarrow>
         (\<exists>n bytes s'. pglite_polling_read max_len s = Inr (n, bytes, s'))))"
proof -
  have z: "offset_inv zero_channel"
    by (simp add: offset_inv_def zero_channel_def zero_buffer_def)
  have r: "offset_inv (pglite_reset_buffers s)"
    by (simp add: offset_inv_def pglite_reset_buffers_def)
  have g: "offset_inv (pglite_signal_input_ready len s)"
    by (simp add: offset_inv_def pglite_signal_input_ready_def)
  have p: "offset_inv s'"
    if inv: "offset_inv s" and rd: "pglite_polling_read max_len s = Inr (n, bytes, s')"
    for n bytes s'
  proof (cases "status (g_input s) = BUFFER_READY")
    case False
    then show ?thesis using inv rd by (simp add: read_not_ready)
  next
    case True
    have le: "read_offset (g_control s) \<le> length_fld (g_input s)"
      using inv by (simp add: offset_inv_def)
    define k where "k = min (unat max_len)
      (unat (length_fld (g_input s)) - unat (read_offset (g_control s)))"
    have ule: "unat (read_offset (g_control s)) + k \<le> unat (length_fld (g_input s))"
      using le by (simp add: k_def word_le_nat_alt)
    have "unat (length_fld (g_input s)) < 2 ^ 32"
      using unsigned_less [of "length_fld (g_input s)"] by simp
    then have small: "unat (read_offset (g_control s)) + k < 2 ^ 32"
      using ule by simp
    have un: "unat (read_offset (g_control s) + of_nat k) = unat (read_offset (g_control s)) + k"
      using small by (simp add: unat_word_ariths unat_of_nat)
    define s1 where "s1 =
      s\<lparr>g_input := (g_input s)\<lparr>status :=
                 (if unat (length_fld (g_input s)) \<le> unat (read_offset (g_control s)) + k
                  then BUFFER_EMPTY else BUFFER_READY)\<rparr>,
        g_control := (g_control s)\<lparr>read_offset := read_offset (g_control s) + of_nat k,
                                    total_read := total_read (g_control s) + of_nat k\<rparr>\<rparr>"
    have alt: "pglite_polling_read max_len s = Inl OutOfBounds \<or>
               pglite_polling_read max_len s =
                 Inr (of_nat k, take k (drop (unat (read_offset (g_control s))) (data (g_input s))), s1)"
      unfolding read_ready_cases [OF True le, of max_len] k_def [symmetric] s1_def [symmetric]
      by simp
    with rd have "s' = s1" by auto
    then have "read_offset (g_control s') = read_offset (g_control s) + of_nat k"
      and "length_fld (g_input s') = length_fld (g_input s)"
      by (simp_all add: s1_def)
    then show ?thesis
      using ule by (simp add: offset_inv_def word_le_nat_alt un)
  qed
  have w: "offset_inv s'"
    if "offset_inv s" and "pglite_polling_write buf wlen s = Inr (n, s')" for n s'
    using that
    by (auto simp: offset_inv_def pglite_polling_write_def split: if_splits sum.splits)
  have f: "offset_inv (pglite_polling_flush s) = offset_inv s"
    by (simp add: offset_inv_def pglite_polling_flush_def)
  have a: "offset_inv (pglite_ack_output s) = offset_inv s"
    by (simp add: offset_inv_def pglite_ack_output_def)
  have u: "uint (length_fld (g_input s) - read_offset (g_control s)) =
        uint (length_fld (g_input s)) - uint (read_offset (g_control s))"
    if "offset_inv s"
    using that by (simp add: offset_inv_def uint_sub_lem [THEN iffD1] word_le_def)
  have nf: "\<exists>n bytes s'. pglite_polling_read max_len s = Inr (n, bytes, s')"
    if inv: "offset_inv s" and cap: "unat (length_fld (g_input s)) \<le> length (data (g_input s))"
  proof (cases "status (g_input s) = BUFFER_READY")
    case False
    then show ?thesis by (simp add: read_not_ready)
  next
    case True
    show ?thesis
      using read_ready [OF True inv [unfolded offset_inv_def] cap, of max_len] by blast
  qed
  show ?thesis
  proof (intro conjI impI allI)
    show "offset_inv zero_channel" by (rule z)
    show "offset_inv (pglite_reset_buffers s)" by (rule r)
    show "offset_inv (pglite_signal_input_ready len s)" by (rule g)
    show "offset_inv s'"
      if "offset_inv s" "pglite_polling_read max_len s = Inr (n, bytes, s')" for n bytes s'
      using that by (rule p)
    show "offset_inv s'"
      if "offset_inv s" "pglite_polling_write buf wlen s = Inr (n, s')" for n s'
      using that by (rule w)
    show "offset_inv (pglite_polling_flush s)" if "offset_inv s"
      using that by (simp add: f)
    show "offset_inv (pglite_ack_output s)" if "offset_inv s"
      using that by (simp add: a)
    show "uint (length_fld (g_input s) - read_offset (g_control s)) =
        uint (length_fld (g_input s)) - uint (read_offset (g_control s))" if "offset_inv s"
      using that by (rule u)
    show "\<exists>n bytes s'. pglite_polling_read max_len s = Inr (n, bytes, s')"
      if "offset_inv s" "unat (length_fld (g_input s)) \<le> length (data (g_input s))"
      using that by (rule nf)
  qed
qed

text \<open>The theorem at \<^verbatim>\<open>hello\<close> signalled ready, for a read of 2 bytes.\<close>

theorem read_offset_invariant_witness:
  "offset_inv (pglite_signal_input_ready 5 (host_fill_input hello_bytes zero_channel)) \<and>
   pglite_polling_read 2 (pglite_signal_input_ready 5 (host_fill_input hello_bytes zero_channel)) =
     Inr (2, [0x68, 0x65],
       (pglite_signal_input_ready 5 (host_fill_input hello_bytes zero_channel))
         \<lparr>g_control := \<lparr>operation = 0, error_code = 0, read_offset = 2,
                        total_read = 2, total_written = 0\<rparr>\<rparr>) \<and>
   offset_inv ((pglite_signal_input_ready 5 (host_fill_input hello_bytes zero_channel))
         \<lparr>g_control := \<lparr>operation = 0, error_code = 0, read_offset = 2,
                        total_read = 2, total_written = 0\<rparr>\<rparr>)"
proof -
  have i: "offset_inv (pglite_signal_input_ready 5 (host_fill_input hello_bytes zero_channel))"
    by (rule read_offset_invariant
        [where s = "host_fill_input hello_bytes zero_channel" and len = 5,
          THEN conjunct2, THEN conjunct2, THEN conjunct1])
  show ?thesis
    using i sample_read
      read_offset_invariant
        [where s = "pglite_signal_input_ready 5 (host_fill_input hello_bytes zero_channel)"
           and max_len = 2 and len = 5 and buf = hello_bytes and wlen = 5]
    by blast
qed

subsection \<open>C10: the two directions do not interfere\<close>

text \<open>
  C10. In every channel state, a read that returns leaves the output buffer, the
  operation, the error code and \<^verbatim>\<open>total_written\<close> as they were; a write that
  returns and a flush leave the input buffer, \<^verbatim>\<open>read_offset\<close> and \<^verbatim>\<open>total_read\<close> as
  they were.
\<close>

theorem directions_do_not_interfere:
  "(\<forall>n bytes s'. pglite_polling_read max_len s = Inr (n, bytes, s') \<longrightarrow>
      g_output s' = g_output s \<and>
      operation (g_control s') = operation (g_control s) \<and>
      error_code (g_control s') = error_code (g_control s) \<and>
      total_written (g_control s') = total_written (g_control s)) \<and>
   (\<forall>n s'. pglite_polling_write buf len s = Inr (n, s') \<longrightarrow>
      g_input s' = g_input s \<and>
      read_offset (g_control s') = read_offset (g_control s) \<and>
      total_read (g_control s') = total_read (g_control s)) \<and>
   g_input (pglite_polling_flush s) = g_input s \<and>
   read_offset (g_control (pglite_polling_flush s)) = read_offset (g_control s) \<and>
   total_read (g_control (pglite_polling_flush s)) = total_read (g_control s)"
  by (auto simp: pglite_polling_read_def pglite_polling_write_def pglite_polling_flush_def
      Let_def split: if_splits sum.splits)

text \<open>The theorem at \<^verbatim>\<open>hello\<close> signalled ready: a read of 2 bytes and a write of 5.\<close>

theorem directions_do_not_interfere_witness:
  "pglite_polling_read 2
     (pglite_signal_input_ready 5 (host_fill_input hello_bytes zero_channel)) =
     Inr (2, [0x68, 0x65],
       (pglite_signal_input_ready 5 (host_fill_input hello_bytes zero_channel))
         \<lparr>g_control := \<lparr>operation = 0, error_code = 0, read_offset = 2,
                        total_read = 2, total_written = 0\<rparr>\<rparr>) \<and>
   g_output ((pglite_signal_input_ready 5 (host_fill_input hello_bytes zero_channel))
         \<lparr>g_control := \<lparr>operation = 0, error_code = 0, read_offset = 2,
                        total_read = 2, total_written = 0\<rparr>\<rparr>) =
     g_output (pglite_signal_input_ready 5 (host_fill_input hello_bytes zero_channel)) \<and>
   pglite_polling_write hello_bytes 5
     (pglite_signal_input_ready 5 (host_fill_input hello_bytes zero_channel)) =
     Inr (5,
       (pglite_signal_input_ready 5 (host_fill_input hello_bytes zero_channel))
         \<lparr>g_output := \<lparr>status = 0, length_fld = 5,
                       data = hello_bytes @ replicate 65531 0\<rparr>,
          g_control := \<lparr>operation = 0, error_code = 0, read_offset = 0,
                        total_read = 0, total_written = 5\<rparr>\<rparr>) \<and>
   g_input ((pglite_signal_input_ready 5 (host_fill_input hello_bytes zero_channel))
         \<lparr>g_output := \<lparr>status = 0, length_fld = 5,
                       data = hello_bytes @ replicate 65531 0\<rparr>,
          g_control := \<lparr>operation = 0, error_code = 0, read_offset = 0,
                        total_read = 0, total_written = 5\<rparr>\<rparr>) =
     g_input (pglite_signal_input_ready 5 (host_fill_input hello_bytes zero_channel))"
  using directions_do_not_interfere
      [where s = "pglite_signal_input_ready 5 (host_fill_input hello_bytes zero_channel)"
         and max_len = 2 and buf = hello_bytes and len = 5]
    sample_read sample_write
  by blast

end
